theory Spec2Isabelle
  imports Complex_Main
begin

section \<open>Values crossing the boundaries of the program\<close>

text \<open>
  The program is TypeScript. Its strings are modelled as \<^typ>\<open>string\<close> (8-bit
  characters, read as the code points U+0000..U+00FF); a thrown \<open>Error\<close> is represented
  by its \<open>message\<close>, which is all the program ever reads of it; a call that may throw
  returns \<open>thrown + 'a\<close> with \<open>Inl\<close> the thrown message.
\<close>

type_synonym thrown = string

text \<open>
  A value produced by \<open>JSON.parse\<close>. Numbers are never inspected by the program, only
  told apart from the other kinds of value. An object is the list of its own properties.
\<close>

datatype json =
    JNull
  | JBool bool
  | JNumber rat
  | JString string
  | JArray "json list"
  | JObject "(string \<times> json) list"

section \<open>Schema validation\<close>

text \<open>
  The schemas that \<open>parse-json-webhook.ts\<close> builds with the \<open>z\<close> combinators:
  \<open>z.string()\<close>, \<open>z.any()\<close>, \<open>z.record(value)\<close> and \<open>z.object({key: schema, ...})\<close>.
\<close>

datatype zschema =
    ZString
  | ZAny
  | ZRecord zschema
  | ZObject "(string \<times> zschema) list"

text \<open>
  One violation found by the validator: the kind of value expected, the kind received,
  the path of property names leading to it, and the message of the violation.
\<close>

record zod_issue =
  expected :: string
  received :: string
  path :: "string list"
  message :: string

text \<open>The kind of a value; \<open>None\<close> is \<open>undefined\<close>, the value of an absent property.\<close>

fun getParsedType :: "json option \<Rightarrow> string" where
  "getParsedType None = ''undefined''"
| "getParsedType (Some JNull) = ''null''"
| "getParsedType (Some (JBool b)) = ''boolean''"
| "getParsedType (Some (JNumber n)) = ''number''"
| "getParsedType (Some (JString s)) = ''string''"
| "getParsedType (Some (JArray xs)) = ''array''"
| "getParsedType (Some (JObject kvs)) = ''object''"

definition invalid_type :: "string \<Rightarrow> json option \<Rightarrow> string list \<Rightarrow> zod_issue" where
  "invalid_type ex v p =
     \<lparr> expected = ex, received = getParsedType v, path = p,
       message = (if v = None then ''Required''
                  else ''Expected '' @ ex @ '', received '' @ getParsedType v) \<rparr>"

text \<open>
  Modelled from the spec: the Schema Validator of section 4.1 (the validation library
  itself is not under src/). A value conforms when every required field is present and of
  the right type; otherwise the validator yields the list of violations. \<open>z.string()\<close>
  accepts exactly strings, \<open>z.any()\<close> accepts everything (an absent property too),
  \<open>z.record(s)\<close> accepts an object (not an array, not \<open>null\<close>) all of whose property
  values conform to \<open>s\<close>, and \<open>z.object(shape)\<close> accepts an object each of whose shape
  properties conforms; properties outside the shape are ignored.
\<close>

fun zod_issues :: "zschema \<Rightarrow> json option \<Rightarrow> string list \<Rightarrow> zod_issue list" where
  "zod_issues ZString v p =
     (case v of Some (JString s) \<Rightarrow> [] | _ \<Rightarrow> [invalid_type ''string'' v p])"
| "zod_issues ZAny v p = []"
| "zod_issues (ZRecord vs) v p =
     (case v of
        Some (JObject kvs) \<Rightarrow> concat (map (\<lambda>kv. zod_issues vs (Some (snd kv)) (p @ [fst kv])) kvs)
      | _ \<Rightarrow> [invalid_type ''object'' v p])"
| "zod_issues (ZObject shape) v p =
     (case v of
        Some (JObject kvs) \<Rightarrow>
          concat (map (\<lambda>ks. zod_issues (snd ks) (map_of kvs (fst ks)) (p @ [fst ks])) shape)
      | _ \<Rightarrow> [invalid_type ''object'' v p])"


section \<open>Types of the flows\<close>

record parse_input =
  webhookData :: string

record parse_output =
  isValid :: bool
  anomalies :: "string list"

record route_input =
  agentOutput :: json
  r_intent :: string
  r_format :: string

record route_output =
  actionTaken :: string
  details :: string

text \<open>
  The types of \<open>classify-document.ts\<close>, of which \<open>page.tsx\<close> reads the fields below.
\<close>

record classify_input =
  documentContent :: string
  documentFormat :: string

record classify_output =
  format :: string
  intent :: string

text \<open>A browser \<open>File\<close>: the program reads its name and hands it to \<open>fileToDataUri\<close>.\<close>

record js_file =
  name :: string
  bytes :: string

text \<open>
  The external collaborators, as parameters of the model: the built-ins \<open>JSON.parse\<close>
  (which throws a \<open>SyntaxError\<close> on text that is not JSON) and \<open>JSON.stringify\<close>, the
  rendering of a validation failure's issues as its message, the prompts (one call to the
  hosted model each; the \<open>output\<close> of a prompt may be \<open>null\<close>), the three flows whose
  files are not part of the sources, \<open>fileToDataUri\<close>, and the clock: \<open>clock n\<close> is the
  time at which the entry at index \<open>n\<close> of the log is appended.
\<close>

record env =
  JSON_parse :: "string \<Rightarrow> thrown + json"
  JSON_stringify :: "json \<Rightarrow> string"
  zodErrorMessage :: "zod_issue list \<Rightarrow> string"
  parseJsonWebhookPrompt :: "parse_input \<Rightarrow> thrown + parse_output option"
  routeActionPrompt :: "route_input \<Rightarrow> thrown + route_output option"
  classifyDocument :: "classify_input \<Rightarrow> thrown + classify_output"
  extractEmailData :: "string \<Rightarrow> thrown + (string \<times> json) list"
  extractPdfData :: "string \<Rightarrow> thrown + (string \<times> json) list"
  fileToDataUri :: "js_file \<Rightarrow> thrown + string"
  clock :: "nat \<Rightarrow> string"

text \<open>
  What a flow does besides returning: a call to the hosted model through the prompt of
  the given name, or a line written to the console (its text and the data logged with
  it). A flow returns its result together with its effects, in order.
\<close>

datatype effect =
    ModelCall string
  | ConsoleLog string json

section \<open>parse-json-webhook.ts\<close>

definition JsonWebhookDataSchema :: zschema where
  "JsonWebhookDataSchema =
     ZObject [(''event_type'', ZString), (''timestamp'', ZString), (''data'', ZRecord ZAny)]"

text \<open>
  \<open>schema.parse(value)\<close>: throws the validation error, whose message renders the issues,
  when there is any issue. The flow discards the value that \<open>parse\<close> returns.
\<close>

definition zod_parse :: "env \<Rightarrow> zschema \<Rightarrow> json \<Rightarrow> thrown + unit" where
  "zod_parse e sch v =
     (case zod_issues sch (Some v) [] of
        [] \<Rightarrow> Inr ()
      | i # rest \<Rightarrow> Inl (zodErrorMessage e (i # rest)))"

text \<open>
  The body of the flow: the \<open>try\<close> block returns the success response when neither
  \<open>JSON.parse\<close> nor the schema throws, and the \<open>catch\<close> turns either error into the
  response carrying its message. The file defines \<open>parseJsonWebhookPrompt\<close>, and the
  body of the flow does not call it: no branch has an effect.
\<close>

definition parseJsonWebhookFlow :: "env \<Rightarrow> parse_input \<Rightarrow> parse_output \<times> effect list" where
  "parseJsonWebhookFlow e inp =
     (case JSON_parse e (webhookData inp) of
        Inl msg \<Rightarrow> (\<lparr> isValid = False, anomalies = [msg] \<rparr>, [])
      | Inr webhook \<Rightarrow>
          (case zod_parse e JsonWebhookDataSchema webhook of
             Inl msg \<Rightarrow> (\<lparr> isValid = False, anomalies = [msg] \<rparr>, [])
           | Inr u \<Rightarrow> (\<lparr> isValid = True, anomalies = [] \<rparr>, [])))"

definition parseJsonWebhook :: "env \<Rightarrow> parse_input \<Rightarrow> parse_output \<times> effect list" where
  "parseJsonWebhook e inp = parseJsonWebhookFlow e inp"

section \<open>route-action.ts\<close>

text \<open>
  \<open>simulateRestCall\<close> writes one line to the console and returns the description of
  the call; it is the only writer to the console.
\<close>

definition simulateRestCall :: "env \<Rightarrow> string \<Rightarrow> json \<Rightarrow> string \<times> effect list" where
  "simulateRestCall e endpoint d =
     (''Simulated '' @ endpoint @ '' call with data: '' @ JSON_stringify e d,
      [ConsoleLog (''Simulating REST call to '' @ endpoint @ '' with data:'') d])"

text \<open>
  The if-chain on \<open>output?.actionTaken\<close>; the argument is \<open>None\<close> when the prompt's output
  is \<open>null\<close>, and the result is \<open>None\<close> in the final \<open>else\<close>, where the flow returns early.
\<close>

definition endpointFor :: "string option \<Rightarrow> string option" where
  "endpointFor a =
     (if a = Some ''create_ticket'' then Some ''/crm/create_ticket''
      else if a = Some ''escalate_issue'' then Some ''/crm/escalate''
      else if a = Some ''flag_compliance_risk'' then Some ''/risk_alert''
      else None)"

text \<open>
  The flow calls the prompt first; it returns its result, or the error thrown by the
  prompt.
\<close>

definition routeActionFlow ::
  "env \<Rightarrow> route_input \<Rightarrow> (thrown + route_output) \<times> effect list" where
  "routeActionFlow e inp =
     (case routeActionPrompt e inp of
        Inl err \<Rightarrow> (Inl err, [ModelCall ''routeActionPrompt''])
      | Inr output \<Rightarrow>
          (case endpointFor (map_option actionTaken output) of
             None \<Rightarrow>
               (Inr \<lparr> actionTaken = ''no_action_taken'',
                      details = ''No action was taken as no route matched.'' \<rparr>,
                [ModelCall ''routeActionPrompt''])
           | Some endpoint \<Rightarrow>
               (let (result, console) = simulateRestCall e endpoint (agentOutput inp)
                in (Inr \<lparr> actionTaken = (case map_option actionTaken output of
                                           Some a \<Rightarrow> a | None \<Rightarrow> ''unknown''),
                          details = result \<rparr>,
                    ModelCall ''routeActionPrompt'' # console))))"

definition routeAction ::
  "env \<Rightarrow> route_input \<Rightarrow> (thrown + route_output) \<times> effect list" where
  "routeAction e inp = routeActionFlow e inp"


section \<open>page.tsx\<close>

text \<open>
  The result of the specialized agent that ran, one variant per format. The outputs of
  the Email and PDF flows are objects whose fields the page never reads.
\<close>

datatype agent_output =
    EmailData "(string \<times> json) list"
  | WebhookResult parse_output
  | PdfData "(string \<times> json) list"

text \<open>The same value as the router receives it, as the \<open>agentOutput\<close> of its input.\<close>

fun agent_output_json :: "agent_output \<Rightarrow> json" where
  "agent_output_json (EmailData kvs) = JObject kvs"
| "agent_output_json (WebhookResult r) =
     JObject [(''isValid'', JBool (isValid r)), (''anomalies'', JArray (map JString (anomalies r)))]"
| "agent_output_json (PdfData kvs) = JObject kvs"

text \<open>
  What the page stores in the \<open>input\<close> and \<open>output\<close> of a log entry (both of type
  \<open>any\<close>): the placeholder text, the input or output of a stage, or \<open>{error: message}\<close>.
\<close>

datatype payload =
    PText string
  | PClassifyInput classify_input
  | PClassifyOutput classify_output
  | PEmailInput string
  | PWebhookInput string
  | PPdfInput string
  | PPdfFileName "string option"
  | PAgentOutput agent_output
  | PRouteInput route_input
  | PRouteOutput route_output
  | PError thrown

text \<open>
  A log entry, with its \<open>input\<close> and \<open>output\<close>; either is \<open>None\<close> when absent or
  \<open>undefined\<close>.
\<close>

record log_entry =
  timestamp :: string
  agent :: string
  log_input :: "payload option"
  log_output :: "payload option"
  action :: "string option"

datatype toast_variant = Default | Destructive

record toast =
  title :: string
  description :: string
  variant :: toast_variant

text \<open>The calls of the page to the flows, in the order in which they are made.\<close>

datatype server_call =
    ClassifyDocument classify_input
  | ExtractEmailData string
  | ParseJsonWebhook parse_input
  | ExtractPdfData string
  | RouteAction route_input

text \<open>
  The state of the component \<open>App\<close> (one field per \<open>useState\<close>), the toasts shown so far
  and the calls made so far.
\<close>

record app_state =
  inputType :: string
  inputValue :: string
  inputFile :: "js_file option"
  isLoading :: bool
  classifierOutput :: "classify_output option"
  classifierError :: "string option"
  specializedAgentOutput :: "agent_output option"
  specializedAgentError :: "string option"
  specializedAgentName :: string
  actionRouterOutput :: "route_output option"
  actionRouterError :: "string option"
  memoryLog :: "log_entry list"
  toasts :: "toast list"
  calls :: "server_call list"

definition addLogEntry ::
  "env \<Rightarrow> string \<Rightarrow> payload option \<Rightarrow> payload option \<Rightarrow> string option \<Rightarrow> app_state \<Rightarrow> app_state" where
  "addLogEntry e ag inp out act s =
     s\<lparr> memoryLog := memoryLog s @
          [\<lparr> timestamp = clock e (length (memoryLog s)), agent = ag,
             log_input = inp, log_output = out, action = act \<rparr>] \<rparr>"

definition resetOutputs :: "app_state \<Rightarrow> app_state" where
  "resetOutputs s =
     s\<lparr> classifierOutput := None, classifierError := None,
        specializedAgentOutput := None, specializedAgentError := None,
        actionRouterOutput := None, actionRouterError := None \<rparr>"

definition show_toast :: "toast \<Rightarrow> app_state \<Rightarrow> app_state" where
  "show_toast t s = s\<lparr> toasts := toasts s @ [t] \<rparr>"

definition call :: "server_call \<Rightarrow> app_state \<Rightarrow> app_state" where
  "call c s = s\<lparr> calls := calls s @ [c] \<rparr>"

text \<open>\<open>message || fallback\<close>: the fallback replaces an empty message.\<close>

definition or_else :: "string \<Rightarrow> string \<Rightarrow> string" where
  "or_else msg fallback = (if msg = [] then fallback else msg)"

text \<open>
  \<open>String.prototype.trim\<close> removes white space and line terminators from both ends;
  these are the ones among the characters of \<^typ>\<open>char\<close>.
\<close>

definition isWhiteSpace :: "char \<Rightarrow> bool" where
  "isWhiteSpace c =
     (c \<in> set [CHR 0x09, CHR 0x0A, CHR 0x0B, CHR 0x0C, CHR 0x0D, CHR 0x20, CHR 0xA0])"

definition trim :: "string \<Rightarrow> string" where
  "trim s = rev (dropWhile isWhiteSpace (rev (dropWhile isWhiteSpace s)))"

text \<open>
  \<open>handleProcessRequest\<close> is a closure over the values of the render in which it was
  created: it reads \<open>inputType\<close>, \<open>inputValue\<close>, \<open>inputFile\<close> and
  \<open>specializedAgentName\<close> from there (the argument \<open>c\<close> below), also after it has
  called a setter. A part of the handler that returns early yields \<open>Inl\<close> of the final
  state; one that falls through yields \<open>Inr\<close> of its local variables and the state.

  Lines 81-99: reading the document.
\<close>

definition readDocument :: "env \<Rightarrow> app_state \<Rightarrow> app_state \<Rightarrow> app_state + string \<times> app_state" where
  "readDocument e c s =
     (if inputType c = ''PDF'' then
        (case inputFile c of
           Some f \<Rightarrow>
             (case fileToDataUri e f of
                Inr uri \<Rightarrow> Inr (uri, s)
              | Inl err \<Rightarrow>
                  Inl ((show_toast \<lparr> title = ''Error reading PDF'',
                                     description = ''Could not read the PDF file.'',
                                     variant = Destructive \<rparr> s)
                       \<lparr> specializedAgentError := Some ''Failed to read PDF file.'',
                         isLoading := False \<rparr>))
         | None \<Rightarrow>
             Inl ((show_toast \<lparr> title = ''Missing PDF File'',
                                description = ''Please select a PDF file to process.'',
                                variant = Destructive \<rparr> s)
                  \<lparr> isLoading := False \<rparr>))
      else if trim (inputValue c) = [] then
        Inl ((show_toast \<lparr> title = ''Missing Input'',
                           description = ''Please provide content for '' @ inputType c @ ''.'',
                           variant = Destructive \<rparr> s)
             \<lparr> isLoading := False \<rparr>)
      else Inr (inputValue c, s))"

text \<open>Line 106: the input of the classifier; an absent file name prints as \<open>undefined\<close>.\<close>

definition classifierInputOf :: "app_state \<Rightarrow> classify_input" where
  "classifierInputOf c =
     \<lparr> documentContent =
         (if inputType c = ''PDF''
          then ''PDF File: '' @ (case inputFile c of Some f \<Rightarrow> name f | None \<Rightarrow> ''undefined'')
          else inputValue c),
       documentFormat = inputType c \<rparr>"

text \<open>Step 1: the classifier. It yields \<open>classifiedIntent\<close> and \<open>classifiedFormat\<close>.\<close>

definition classifierStep ::
  "env \<Rightarrow> app_state \<Rightarrow> app_state \<Rightarrow> app_state + (string \<times> string) \<times> app_state" where
  "classifierStep e c s =
     (let classifierInput = classifierInputOf c;
          s1 = addLogEntry e ''Classifier'' (Some (PClassifyInput classifierInput))
                 (Some (PText ''Processing...'')) None s;
          s2 = call (ClassifyDocument classifierInput) s1
      in case classifyDocument e classifierInput of
           Inr out \<Rightarrow>
             (let s3 = s2\<lparr> classifierOutput := Some out \<rparr>;
                  s4 = addLogEntry e ''Classifier'' (Some (PClassifyInput classifierInput))
                         (Some (PClassifyOutput out)) None s3;
                  s5 = show_toast \<lparr> title = ''Classifier Success'',
                         description = ''Document classified as '' @ format out @ '' - '' @ intent out,
                         variant = Default \<rparr> s4
              in Inr ((intent out, format out), s5))
         | Inl err \<Rightarrow>
             (let s3 = s2\<lparr> classifierError := Some (or_else err ''Error in Classifier Agent'') \<rparr>;
                  s4 = addLogEntry e ''Classifier'' None (Some (PError err)) None s3;
                  s5 = show_toast \<lparr> title = ''Classifier Error'', description = err,
                         variant = Destructive \<rparr> s4
              in Inl (s5\<lparr> isLoading := False \<rparr>)))"

text \<open>
  Step 2, lines 144-147: what follows the if-chain on the format inside the \<open>try\<close>;
  \<open>specializedOutput\<close> and \<open>specializedInput\<close> are \<open>None\<close> when no branch assigned
  them.
\<close>

definition specializedDone ::
  "env \<Rightarrow> app_state \<Rightarrow> payload option \<Rightarrow> agent_output option \<Rightarrow> app_state
     \<Rightarrow> app_state + agent_output option \<times> app_state" where
  "specializedDone e c specializedInput specializedOutput s =
     (let s1 = s\<lparr> specializedAgentOutput := specializedOutput \<rparr>;
          s2 = addLogEntry e (specializedAgentName c) specializedInput
                 (map_option PAgentOutput specializedOutput) None s1;
          s3 = show_toast \<lparr> title = specializedAgentName c @ '' Success'',
                 description = ''Data extracted successfully.'', variant = Default \<rparr> s2
      in Inr (specializedOutput, s3))"

text \<open>Step 2, lines 148-153: the \<open>catch\<close>.\<close>

definition specializedFailed ::
  "env \<Rightarrow> app_state \<Rightarrow> thrown \<Rightarrow> app_state \<Rightarrow> app_state + agent_output option \<times> app_state" where
  "specializedFailed e c err s =
     (let s1 = s\<lparr> specializedAgentError :=
                   Some (or_else err (''Error in '' @ specializedAgentName c)) \<rparr>;
          s2 = addLogEntry e (specializedAgentName c) None (Some (PError err)) None s1;
          s3 = show_toast \<lparr> title = specializedAgentName c @ '' Error'', description = err,
                 variant = Destructive \<rparr> s2
      in Inl (s3\<lparr> isLoading := False \<rparr>))"

text \<open>
  Step 2: the specialized agent. It yields \<open>agentOutputForRouter\<close>, which stays \<open>None\<close>
  (\<open>null\<close> or \<open>undefined\<close>) when the format is empty or matches no branch.
\<close>

definition specializedStep ::
  "env \<Rightarrow> app_state \<Rightarrow> string \<Rightarrow> string \<Rightarrow> app_state
     \<Rightarrow> app_state + agent_output option \<times> app_state" where
  "specializedStep e c currentDocumentContent classifiedFormat s =
     (if classifiedFormat \<noteq> [] then
        (if classifiedFormat = ''Email'' then
           (let s1 = s\<lparr> specializedAgentName := ''Email Agent'' \<rparr>;
                s2 = addLogEntry e ''Email Agent'' (Some (PEmailInput (inputValue c)))
                       (Some (PText ''Processing...'')) None s1;
                s3 = call (ExtractEmailData (inputValue c)) s2
            in case extractEmailData e (inputValue c) of
                 Inr out \<Rightarrow>
                   specializedDone e c (Some (PEmailInput (inputValue c))) (Some (EmailData out)) s3
               | Inl err \<Rightarrow> specializedFailed e c err s3)
         else if classifiedFormat = ''JSON'' then
           (let s1 = s\<lparr> specializedAgentName := ''JSON Agent'' \<rparr>;
                specializedInput = \<lparr> webhookData = inputValue c \<rparr>;
                s2 = addLogEntry e ''JSON Agent'' (Some (PWebhookInput (inputValue c)))
                       (Some (PText ''Processing...'')) None s1;
                s3 = call (ParseJsonWebhook specializedInput) s2
            in specializedDone e c (Some (PWebhookInput (inputValue c)))
                 (Some (WebhookResult (fst (parseJsonWebhook e specializedInput)))) s3)
         else if classifiedFormat = ''PDF'' then
           (let s1 = s\<lparr> specializedAgentName := ''PDF Agent'' \<rparr>;
                s2 = addLogEntry e ''PDF Agent'' (Some (PPdfFileName (map_option name (inputFile c))))
                       (Some (PText ''Processing...'')) None s1;
                s3 = call (ExtractPdfData currentDocumentContent) s2
            in case extractPdfData e currentDocumentContent of
                 Inr out \<Rightarrow>
                   specializedDone e c (Some (PPdfInput currentDocumentContent)) (Some (PdfData out)) s3
               | Inl err \<Rightarrow> specializedFailed e c err s3)
         else specializedDone e c None None s)
      else Inr (None, s))"

text \<open>
  Step 3: the action router, and line 160, its input. Of a flow only the result reaches
  the page; its effects happen on the server. An error here does not end the handler.
\<close>

definition routerInputOf :: "agent_output \<Rightarrow> string \<Rightarrow> string \<Rightarrow> route_input" where
  "routerInputOf a classifiedIntent classifiedFormat =
     \<lparr> agentOutput = agent_output_json a,
       r_intent = classifiedIntent, r_format = classifiedFormat \<rparr>"

definition routerStep ::
  "env \<Rightarrow> agent_output option \<Rightarrow> string \<Rightarrow> string \<Rightarrow> app_state \<Rightarrow> app_state" where
  "routerStep e agentOutputForRouter classifiedIntent classifiedFormat s =
     (case agentOutputForRouter of
        None \<Rightarrow> s
      | Some ao \<Rightarrow>
          (if classifiedIntent \<noteq> [] \<and> classifiedFormat \<noteq> [] then
             (let routerInput = routerInputOf ao classifiedIntent classifiedFormat;
                  s1 = addLogEntry e ''Action Router'' (Some (PRouteInput routerInput))
                         (Some (PText ''Processing...'')) None s;
                  s2 = call (RouteAction routerInput) s1
              in case fst (routeAction e routerInput) of
                   Inr out \<Rightarrow>
                     (let s3 = s2\<lparr> actionRouterOutput := Some out \<rparr>;
                          s4 = addLogEntry e ''Action Router'' (Some (PRouteInput routerInput))
                                 (Some (PRouteOutput out)) (Some (''Action: '' @ actionTaken out)) s3
                      in show_toast \<lparr> title = ''Action Router Success'',
                           description = ''Action triggered: '' @ actionTaken out,
                           variant = Default \<rparr> s4)
                 | Inl err \<Rightarrow>
                     (let s3 = s2\<lparr> actionRouterError := Some (or_else err ''Error in Action Router'') \<rparr>;
                          s4 = addLogEntry e ''Action Router'' None (Some (PError err)) None s3
                      in show_toast \<lparr> title = ''Action Router Error'', description = err,
                           variant = Destructive \<rparr> s4))
           else s))"

text \<open>
  Lines 78-155: the handler up to Step 3. It yields the final state when the handler
  returned early, and otherwise the local variables that Step 3 reads and the state in
  which Step 3 begins.
\<close>

definition untilRouter ::
  "env \<Rightarrow> app_state \<Rightarrow> app_state + (agent_output option \<times> string \<times> string) \<times> app_state" where
  "untilRouter e c =
     (case readDocument e c (resetOutputs (c\<lparr> isLoading := True \<rparr>)) of
        Inl halted \<Rightarrow> Inl halted
      | Inr (currentDocumentContent, s1) \<Rightarrow>
          (case classifierStep e c s1 of
             Inl halted \<Rightarrow> Inl halted
           | Inr ((classifiedIntent, classifiedFormat), s2) \<Rightarrow>
               (case specializedStep e c currentDocumentContent classifiedFormat s2 of
                  Inl halted \<Rightarrow> Inl halted
                | Inr (agentOutputForRouter, s3) \<Rightarrow>
                    Inr ((agentOutputForRouter, classifiedIntent, classifiedFormat), s3))))"

definition handleProcessRequest :: "env \<Rightarrow> app_state \<Rightarrow> app_state" where
  "handleProcessRequest e c =
     (case untilRouter e c of
        Inl halted \<Rightarrow> halted
      | Inr ((agentOutputForRouter, classifiedIntent, classifiedFormat), s3) \<Rightarrow>
          (routerStep e agentOutputForRouter classifiedIntent classifiedFormat s3)
          \<lparr> isLoading := False \<rparr>)"

section \<open>Observing a run\<close>

text \<open>
  The log and the list of calls only grow, and the log is not cleared between runs: what
  a run of the handler appended is what follows the entries that were there before.
\<close>

definition appended_entries :: "app_state \<Rightarrow> app_state \<Rightarrow> log_entry list" where
  "appended_entries before after = drop (length (memoryLog before)) (memoryLog after)"

definition new_calls :: "app_state \<Rightarrow> app_state \<Rightarrow> server_call list" where
  "new_calls before after = drop (length (calls before)) (calls after)"

definition new_toasts :: "app_state \<Rightarrow> app_state \<Rightarrow> toast list" where
  "new_toasts before after = drop (length (toasts before)) (toasts after)"

fun carries_error :: "log_entry \<Rightarrow> bool" where
  "carries_error en = (case log_output en of Some (PError m) \<Rightarrow> True | _ \<Rightarrow> False)"

fun isRouteAction :: "server_call \<Rightarrow> bool" where
  "isRouteAction (RouteAction i) = True"
| "isRouteAction _ = False"

fun isModelCall :: "effect \<Rightarrow> bool" where
  "isModelCall (ModelCall n) = True"
| "isModelCall _ = False"

fun isConsoleLog :: "effect \<Rightarrow> bool" where
  "isConsoleLog (ConsoleLog t d) = True"
| "isConsoleLog _ = False"

text \<open>Whether a parsed value is an object with the given property.\<close>

fun has_field :: "string \<Rightarrow> json \<Rightarrow> bool" where
  "has_field k (JObject kvs) = (k \<in> set (map fst kvs))"
| "has_field k v = False"

text \<open>A text is blank when it is empty or consists of white space only.\<close>

definition blank :: "string \<Rightarrow> bool" where
  "blank s = list_all isWhiteSpace s"

section \<open>A concrete environment and a concrete state\<close>

text \<open>
  \<open>example_parse\<close> stands in for \<open>JSON.parse\<close> and agrees with it on the three texts it
  tells apart and on the empty text; \<open>example_stringify\<close> stands in for
  \<open>JSON.stringify\<close> and agrees with it on the result of a valid webhook.
\<close>

definition example_parse :: "string \<Rightarrow> thrown + json" where
  \<open>example_parse s =
     (if s = ''{"event_type":"x","timestamp":"t","data":{}}'' then
        Inr (JObject [(''event_type'', JString ''x''), (''timestamp'', JString ''t''),
                      (''data'', JObject [])])
      else if s = ''{"timestamp":"t"}'' then Inr (JObject [(''timestamp'', JString ''t'')])
      else if s = ''oops'' then Inl ''Unexpected token o in JSON at position 0''
      else Inl ''Unexpected end of JSON input'')\<close>

definition example_stringify :: "json \<Rightarrow> string" where
  \<open>example_stringify v =
     (if v = JObject [(''isValid'', JBool True), (''anomalies'', JArray [])]
      then ''{"isValid":true,"anomalies":[]}'' else ''{}'')\<close>

definition example_env :: env where
  "example_env =
     \<lparr> JSON_parse = example_parse,
       JSON_stringify = example_stringify,
       zodErrorMessage = (\<lambda>issues. concat (map message issues)),
       parseJsonWebhookPrompt = (\<lambda>i. Inr None),
       routeActionPrompt =
         (\<lambda>i. Inr (Some \<lparr> actionTaken = ''create_ticket'', details = ''Ticket 1'' \<rparr>)),
       classifyDocument = (\<lambda>i. Inr \<lparr> format = documentFormat i, intent = ''Complaint'' \<rparr>),
       extractEmailData = (\<lambda>t. Inr [(''sender'', JString ''a@b.c'')]),
       extractPdfData = (\<lambda>u. Inr []),
       fileToDataUri = (\<lambda>f. Inr (''data:application/pdf;base64,'' @ bytes f)),
       clock = (\<lambda>n. ''2024-01-01T00:00:00.000Z'') \<rparr>"

definition example_state :: app_state where
  \<open>example_state =
     \<lparr> inputType = ''Email'',
       inputValue = ''Refund, please.'',
       inputFile = None, isLoading = False,
       classifierOutput = None, classifierError = None,
       specializedAgentOutput = None, specializedAgentError = None,
       specializedAgentName = ''Specialized Agent'',
       actionRouterOutput = None, actionRouterError = None,
       memoryLog = [], toasts = [], calls = [] \<rparr>\<close>


text \<open>
  Variations: a classifier that answers with a format the page does not know, a
  classifier that fails, a router whose prompt fails, and a submission of white space.
\<close>

definition unrecognised_env :: env where
  "unrecognised_env =
     example_env\<lparr> classifyDocument := (\<lambda>i. Inr \<lparr> format = ''XML'', intent = ''Invoice'' \<rparr>) \<rparr>"

definition failing_classifier_env :: env where
  "failing_classifier_env =
     example_env\<lparr> classifyDocument := (\<lambda>i. Inl ''Model overloaded'') \<rparr>"

definition failing_router_env :: env where
  "failing_router_env = example_env\<lparr> routeActionPrompt := (\<lambda>i. Inl ''Quota exceeded'') \<rparr>"

definition blank_state :: app_state where
  "blank_state = example_state\<lparr> inputValue := [CHR 0x20, CHR 0x09, CHR 0x0A] \<rparr>"

definition example_route_input :: route_input where
  "example_route_input =
     \<lparr> agentOutput = JObject [(''isValid'', JBool True), (''anomalies'', JArray [])],
       r_intent = ''Complaint'', r_format = ''JSON'' \<rparr>"

text \<open>
  The state in which Step 3 begins when the handler runs in \<open>example_state\<close> with the
  router that fails.
\<close>

definition state_before_routing :: app_state where
  "state_before_routing =
     \<lparr> inputType = ''Email'', inputValue = ''Refund, please.'',
       inputFile = None, isLoading = True,
       classifierOutput = Some \<lparr> format = ''Email'', intent = ''Complaint'' \<rparr>,
       classifierError = None,
       specializedAgentOutput = Some (EmailData [(''sender'', JString ''a@b.c'')]),
       specializedAgentError = None,
       specializedAgentName = ''Email Agent'',
       actionRouterOutput = None, actionRouterError = None,
       memoryLog =
         [\<lparr> timestamp = ''2024-01-01T00:00:00.000Z'', agent = ''Classifier'',
            log_input = Some (PClassifyInput \<lparr> documentContent = ''Refund, please.'',
                                               documentFormat = ''Email'' \<rparr>),
            log_output = Some (PText ''Processing...''), action = None \<rparr>,
          \<lparr> timestamp = ''2024-01-01T00:00:00.000Z'', agent = ''Classifier'',
            log_input = Some (PClassifyInput \<lparr> documentContent = ''Refund, please.'',
                                               documentFormat = ''Email'' \<rparr>),
            log_output = Some (PClassifyOutput \<lparr> format = ''Email'', intent = ''Complaint'' \<rparr>),
            action = None \<rparr>,
          \<lparr> timestamp = ''2024-01-01T00:00:00.000Z'', agent = ''Email Agent'',
            log_input = Some (PEmailInput ''Refund, please.''),
            log_output = Some (PText ''Processing...''), action = None \<rparr>,
          \<lparr> timestamp = ''2024-01-01T00:00:00.000Z'', agent = ''Specialized Agent'',
            log_input = Some (PEmailInput ''Refund, please.''),
            log_output = Some (PAgentOutput (EmailData [(''sender'', JString ''a@b.c'')])),
            action = None \<rparr>],
       toasts =
         [\<lparr> title = ''Classifier Success'',
            description = ''Document classified as Email - Complaint'', variant = Default \<rparr>,
          \<lparr> title = ''Specialized Agent Success'',
            description = ''Data extracted successfully.'', variant = Default \<rparr>],
       calls =
         [ClassifyDocument \<lparr> documentContent = ''Refund, please.'', documentFormat = ''Email'' \<rparr>,
          ExtractEmailData ''Refund, please.''] \<rparr>"

section \<open>The JSON agent\<close>

lemma zod_issues_conforming:
  assumes "map_of kvs ''event_type'' = Some (JString x)"
    and "map_of kvs ''timestamp'' = Some (JString t)"
    and "map_of kvs ''data'' = Some (JObject d)"
  shows "zod_issues JsonWebhookDataSchema (Some (JObject kvs)) [] = []"
  using assms by (simp add: JsonWebhookDataSchema_def)

lemma zod_issues_no_event_type:
  assumes "\<not> has_field ''event_type'' v"
  shows "zod_issues JsonWebhookDataSchema (Some v) [] \<noteq> []"
proof (cases v)
  case (JObject kvs)
  with assms have "map_of kvs ''event_type'' = None"
    by (simp add: map_of_eq_None_iff)
  with JObject show ?thesis
    by (simp add: JsonWebhookDataSchema_def)
qed (simp_all add: JsonWebhookDataSchema_def)

text \<open>
  C1. When \<open>JSON.parse\<close> rejects the text with the message \<open>m\<close>, the JSON agent returns
  exactly \<open>{isValid: false, anomalies: [m]}\<close>. The result is a function of the text and
  of the answer of \<open>JSON.parse\<close>; the flow has no effect, so it makes no model call, and
  the result is the same whatever the model behind the prompt of the file would answer.
\<close>

theorem unparseable_webhook:
  assumes "JSON_parse e (webhookData inp) = Inl m"
  shows "parseJsonWebhook e inp = (\<lparr> isValid = False, anomalies = [m] \<rparr>, [])
       \<and> \<not> list_ex isModelCall (snd (parseJsonWebhook e inp))
       \<and> parseJsonWebhook (e\<lparr> parseJsonWebhookPrompt := p \<rparr>) inp = parseJsonWebhook e inp"
  using assms by (simp add: parseJsonWebhook_def parseJsonWebhookFlow_def)

theorem unparseable_webhook_witness:
  "JSON_parse example_env (webhookData \<lparr> webhookData = ''oops'' \<rparr>)
     = Inl ''Unexpected token o in JSON at position 0''
   \<and> parseJsonWebhook example_env \<lparr> webhookData = ''oops'' \<rparr>
     = (\<lparr> isValid = False, anomalies = [''Unexpected token o in JSON at position 0''] \<rparr>, [])"
proof -
  have h: "JSON_parse example_env (webhookData \<lparr> webhookData = ''oops'' \<rparr>)
             = Inl ''Unexpected token o in JSON at position 0''"
    by (simp add: example_env_def example_parse_def)
  from unparseable_webhook [OF h] h show ?thesis by simp
qed

text \<open>
  C7. When the text parses to an object whose \<open>event_type\<close> and \<open>timestamp\<close> are strings
  and whose \<open>data\<close> is an object, as every text of the form
  \<open>{"event_type":"x","timestamp":"t","data":{}}\<close> does, the JSON agent returns exactly
  \<open>{isValid: true, anomalies: []}\<close>.
\<close>

theorem conforming_webhook:
  assumes "JSON_parse e (webhookData inp) = Inr (JObject kvs)"
    and "map_of kvs ''event_type'' = Some (JString x)"
    and "map_of kvs ''timestamp'' = Some (JString t)"
    and "map_of kvs ''data'' = Some (JObject d)"
  shows "parseJsonWebhook e inp = (\<lparr> isValid = True, anomalies = [] \<rparr>, [])"
  using assms(1) zod_issues_conforming [OF assms(2-4)]
  by (simp add: parseJsonWebhook_def parseJsonWebhookFlow_def zod_parse_def)

theorem conforming_webhook_witness:
  \<open>JSON_parse example_env
       (webhookData \<lparr> webhookData = ''{"event_type":"x","timestamp":"t","data":{}}'' \<rparr>)
     = Inr (JObject [(''event_type'', JString ''x''), (''timestamp'', JString ''t''),
                     (''data'', JObject [])])
   \<and> parseJsonWebhook example_env
       \<lparr> webhookData = ''{"event_type":"x","timestamp":"t","data":{}}'' \<rparr>
     = (\<lparr> isValid = True, anomalies = [] \<rparr>, [])\<close>
proof -
  have h: \<open>JSON_parse example_env
       (webhookData \<lparr> webhookData = ''{"event_type":"x","timestamp":"t","data":{}}'' \<rparr>)
     = Inr (JObject [(''event_type'', JString ''x''), (''timestamp'', JString ''t''),
                     (''data'', JObject [])])\<close>
    by (simp add: example_env_def example_parse_def)
  from conforming_webhook [OF h, of "''x''" "''t''" "[]"] h show ?thesis by simp
qed

text \<open>
  C8. When the text parses to a value that has no \<open>event_type\<close> field (an object
  without that property, or a value that is not an object), the JSON agent returns
  \<open>isValid = false\<close> and a list of anomalies that is not empty.
\<close>

theorem webhook_without_event_type:
  assumes "JSON_parse e (webhookData inp) = Inr v"
    and "\<not> has_field ''event_type'' v"
  shows "isValid (fst (parseJsonWebhook e inp)) = False
       \<and> anomalies (fst (parseJsonWebhook e inp)) \<noteq> []"
  using assms(1) zod_issues_no_event_type [OF assms(2)]
  by (simp add: parseJsonWebhook_def parseJsonWebhookFlow_def zod_parse_def split: list.splits)

theorem webhook_without_event_type_witness:
  \<open>JSON_parse example_env (webhookData \<lparr> webhookData = ''{"timestamp":"t"}'' \<rparr>)
     = Inr (JObject [(''timestamp'', JString ''t'')])
   \<and> \<not> has_field ''event_type'' (JObject [(''timestamp'', JString ''t'')])
   \<and> isValid (fst (parseJsonWebhook example_env \<lparr> webhookData = ''{"timestamp":"t"}'' \<rparr>)) = False
   \<and> anomalies (fst (parseJsonWebhook example_env \<lparr> webhookData = ''{"timestamp":"t"}'' \<rparr>))
       \<noteq> []\<close>
proof -
  have h1: \<open>JSON_parse example_env (webhookData \<lparr> webhookData = ''{"timestamp":"t"}'' \<rparr>)
     = Inr (JObject [(''timestamp'', JString ''t'')])\<close>
    by (simp add: example_env_def example_parse_def)
  have h2: "\<not> has_field ''event_type'' (JObject [(''timestamp'', JString ''t'')])"
    by simp
  show ?thesis
    by (rule conjI [OF h1 conjI [OF h2 webhook_without_event_type [OF h1 h2]]])
qed

section \<open>The action router\<close>

text \<open>
  C4. When the prompt answers and the action it chose is none of \<open>create_ticket\<close>,
  \<open>escalate_issue\<close> and \<open>flag_compliance_risk\<close> (its output may also be absent), the
  router returns exactly \<open>no_action_taken\<close> with the fixed details, and its only effect
  is the model call: nothing is written to the console, so no call was simulated.
\<close>

theorem unmatched_action:
  assumes "routeActionPrompt e inp = Inr out"
    and "map_option actionTaken out
           \<notin> {Some ''create_ticket'', Some ''escalate_issue'', Some ''flag_compliance_risk''}"
  shows "routeAction e inp =
           (Inr \<lparr> actionTaken = ''no_action_taken'',
                  details = ''No action was taken as no route matched.'' \<rparr>,
            [ModelCall ''routeActionPrompt''])
       \<and> \<not> list_ex isConsoleLog (snd (routeAction e inp))"
  using assms
  by (cases out) (auto simp add: routeAction_def routeActionFlow_def endpointFor_def)

theorem unmatched_action_witness:
  "routeActionPrompt (example_env\<lparr> routeActionPrompt := (\<lambda>i. Inr None) \<rparr>)
       \<lparr> agentOutput = JObject [], r_intent = ''RFQ'', r_format = ''Email'' \<rparr> = Inr None
   \<and> map_option actionTaken None
       \<notin> {Some ''create_ticket'', Some ''escalate_issue'', Some ''flag_compliance_risk''}
   \<and> routeAction (example_env\<lparr> routeActionPrompt := (\<lambda>i. Inr None) \<rparr>)
       \<lparr> agentOutput = JObject [], r_intent = ''RFQ'', r_format = ''Email'' \<rparr> =
         (Inr \<lparr> actionTaken = ''no_action_taken'',
                details = ''No action was taken as no route matched.'' \<rparr>,
          [ModelCall ''routeActionPrompt''])"
proof -
  have h1: "routeActionPrompt (example_env\<lparr> routeActionPrompt := (\<lambda>i. Inr None) \<rparr>)
       \<lparr> agentOutput = JObject [], r_intent = ''RFQ'', r_format = ''Email'' \<rparr> = Inr None"
    by simp
  have h2: "map_option actionTaken None
       \<notin> {Some ''create_ticket'', Some ''escalate_issue'', Some ''flag_compliance_risk''}"
    by simp
  from unmatched_action [OF h1 h2] h1 h2 show ?thesis by simp
qed

text \<open>
  C5. When the prompt answers and chose one of the three actions, the router maps the
  action to its target (\<open>/crm/create_ticket\<close>, \<open>/crm/escalate\<close>, \<open>/risk_alert\<close>),
  simulates one call to that target with the agent output as its data, returns the
  description of that call as \<open>details\<close> and the chosen action as \<open>actionTaken\<close>.
\<close>

theorem matched_action:
  assumes "routeActionPrompt e inp = Inr out"
    and "map_option actionTaken out = Some a"
    and "(a, target) \<in> {(''create_ticket'', ''/crm/create_ticket''),
                         (''escalate_issue'', ''/crm/escalate''),
                         (''flag_compliance_risk'', ''/risk_alert'')}"
  shows "routeAction e inp =
           (Inr \<lparr> actionTaken = a,
                  details = ''Simulated '' @ target @ '' call with data: ''
                              @ JSON_stringify e (agentOutput inp) \<rparr>,
            [ModelCall ''routeActionPrompt'',
             ConsoleLog (''Simulating REST call to '' @ target @ '' with data:'') (agentOutput inp)])
       \<and> simulateRestCall e target (agentOutput inp) =
           (''Simulated '' @ target @ '' call with data: '' @ JSON_stringify e (agentOutput inp),
            [ConsoleLog (''Simulating REST call to '' @ target @ '' with data:'') (agentOutput inp)])"
proof -
  from assms(3) consider
      "a = ''create_ticket''" and "target = ''/crm/create_ticket''"
    | "a = ''escalate_issue''" and "target = ''/crm/escalate''"
    | "a = ''flag_compliance_risk''" and "target = ''/risk_alert''"
    by blast
  then have "endpointFor (Some a) = Some target"
    by cases (simp_all add: endpointFor_def)
  then show ?thesis
    by (simp add: routeAction_def routeActionFlow_def simulateRestCall_def assms(1,2))
qed

theorem matched_action_witness:
  \<open>routeActionPrompt example_env example_route_input
     = Inr (Some \<lparr> actionTaken = ''create_ticket'', details = ''Ticket 1'' \<rparr>)
   \<and> map_option actionTaken (Some \<lparr> actionTaken = ''create_ticket'', details = ''Ticket 1'' \<rparr>)
     = Some ''create_ticket''
   \<and> routeAction example_env example_route_input =
       (Inr \<lparr> actionTaken = ''create_ticket'',
              details = ''Simulated /crm/create_ticket call with data: {"isValid":true,"anomalies":[]}'' \<rparr>,
        [ModelCall ''routeActionPrompt'',
         ConsoleLog ''Simulating REST call to /crm/create_ticket with data:''
           (JObject [(''isValid'', JBool True), (''anomalies'', JArray [])])])\<close>
proof -
  have h1: "routeActionPrompt example_env example_route_input
     = Inr (Some \<lparr> actionTaken = ''create_ticket'', details = ''Ticket 1'' \<rparr>)"
    by (simp add: example_env_def)
  have h2: "map_option actionTaken (Some \<lparr> actionTaken = ''create_ticket'', details = ''Ticket 1'' \<rparr>)
     = Some ''create_ticket''"
    by simp
  have h3: "(''create_ticket'', ''/crm/create_ticket'')
     \<in> {(''create_ticket'', ''/crm/create_ticket''), (''escalate_issue'', ''/crm/escalate''),
         (''flag_compliance_risk'', ''/risk_alert'')}"
    by simp
  from matched_action [OF h1 h2 h3] h1 h2 show ?thesis
    by (simp add: example_env_def example_route_input_def example_stringify_def)
qed

text \<open>
  C10. Whenever the router returns a decision, its \<open>actionTaken\<close> is one of
  \<open>create_ticket\<close>, \<open>escalate_issue\<close>, \<open>flag_compliance_risk\<close> and
  \<open>no_action_taken\<close>; the fallback \<open>unknown\<close> is never returned.
\<close>

theorem action_taken_closed:
  assumes "fst (routeAction e inp) = Inr r"
  shows "actionTaken r \<in> {''create_ticket'', ''escalate_issue'', ''flag_compliance_risk'',
                            ''no_action_taken''}
       \<and> actionTaken r \<noteq> ''unknown''"
proof (cases "routeActionPrompt e inp")
  case (Inl err)
  with assms show ?thesis
    by (simp add: routeAction_def routeActionFlow_def)
next
  case (Inr out)
  show ?thesis
  proof (cases "endpointFor (map_option actionTaken out)")
    case None
    with Inr assms show ?thesis
      by (auto simp add: routeAction_def routeActionFlow_def)
  next
    case (Some endpoint)
    then obtain a where a: "map_option actionTaken out = Some a"
      and "a \<in> {''create_ticket'', ''escalate_issue'', ''flag_compliance_risk''}"
      by (auto simp add: endpointFor_def split: if_splits)
    with Inr Some assms show ?thesis
      by (auto simp add: routeAction_def routeActionFlow_def simulateRestCall_def)
  qed
qed

theorem action_taken_closed_witness:
  \<open>fst (routeAction example_env example_route_input)
     = Inr \<lparr> actionTaken = ''create_ticket'',
             details = ''Simulated /crm/create_ticket call with data: {"isValid":true,"anomalies":[]}'' \<rparr>
   \<and> actionTaken \<lparr> actionTaken = ''create_ticket'',
             details = ''Simulated /crm/create_ticket call with data: {"isValid":true,"anomalies":[]}'' \<rparr>
       \<in> {''create_ticket'', ''escalate_issue'', ''flag_compliance_risk'', ''no_action_taken''}
   \<and> actionTaken \<lparr> actionTaken = ''create_ticket'',
             details = ''Simulated /crm/create_ticket call with data: {"isValid":true,"anomalies":[]}'' \<rparr>
       \<noteq> ''unknown''\<close>
proof -
  have h: \<open>fst (routeAction example_env example_route_input)
     = Inr \<lparr> actionTaken = ''create_ticket'',
             details = ''Simulated /crm/create_ticket call with data: {"isValid":true,"anomalies":[]}'' \<rparr>\<close>
    by code_simp
  show ?thesis
    by (rule conjI [OF h action_taken_closed [OF h]])
qed

section \<open>The stages of the handler\<close>

text \<open>
  What each setter leaves alone, and what each stage of the handler does to the fields
  of the state, case by case.
\<close>

lemma trim_blank:
  assumes "blank s"
  shows "trim s = []"
proof -
  from assms have "\<forall>ch\<in>set s. isWhiteSpace ch"
    by (simp add: blank_def list_all_iff)
  then have d: "dropWhile isWhiteSpace s = []"
    by simp
  show ?thesis
    by (simp only: trim_def d rev.simps dropWhile.simps append_Nil)
qed

lemma addLogEntry_fields:
  "memoryLog (addLogEntry e ag i out act s) =
     memoryLog s @ [\<lparr> timestamp = clock e (length (memoryLog s)), agent = ag,
                      log_input = i, log_output = out, action = act \<rparr>]"
  "calls (addLogEntry e ag i out act s) = calls s"
  "toasts (addLogEntry e ag i out act s) = toasts s"
  "isLoading (addLogEntry e ag i out act s) = isLoading s"
  "classifierOutput (addLogEntry e ag i out act s) = classifierOutput s"
  "classifierError (addLogEntry e ag i out act s) = classifierError s"
  "specializedAgentOutput (addLogEntry e ag i out act s) = specializedAgentOutput s"
  "specializedAgentError (addLogEntry e ag i out act s) = specializedAgentError s"
  "actionRouterOutput (addLogEntry e ag i out act s) = actionRouterOutput s"
  "actionRouterError (addLogEntry e ag i out act s) = actionRouterError s"
  by (simp_all add: addLogEntry_def)

lemma call_fields:
  "memoryLog (call cl s) = memoryLog s"
  "calls (call cl s) = calls s @ [cl]"
  "toasts (call cl s) = toasts s"
  "isLoading (call cl s) = isLoading s"
  "classifierOutput (call cl s) = classifierOutput s"
  "classifierError (call cl s) = classifierError s"
  "specializedAgentOutput (call cl s) = specializedAgentOutput s"
  "specializedAgentError (call cl s) = specializedAgentError s"
  "actionRouterOutput (call cl s) = actionRouterOutput s"
  "actionRouterError (call cl s) = actionRouterError s"
  by (simp_all add: call_def)

lemma show_toast_fields:
  "memoryLog (show_toast t s) = memoryLog s"
  "calls (show_toast t s) = calls s"
  "toasts (show_toast t s) = toasts s @ [t]"
  "isLoading (show_toast t s) = isLoading s"
  "classifierOutput (show_toast t s) = classifierOutput s"
  "classifierError (show_toast t s) = classifierError s"
  "specializedAgentOutput (show_toast t s) = specializedAgentOutput s"
  "specializedAgentError (show_toast t s) = specializedAgentError s"
  "actionRouterOutput (show_toast t s) = actionRouterOutput s"
  "actionRouterError (show_toast t s) = actionRouterError s"
  by (simp_all add: show_toast_def)

lemma resetOutputs_fields:
  "memoryLog (resetOutputs s) = memoryLog s"
  "calls (resetOutputs s) = calls s"
  "toasts (resetOutputs s) = toasts s"
  "isLoading (resetOutputs s) = isLoading s"
  "classifierOutput (resetOutputs s) = None"
  "classifierError (resetOutputs s) = None"
  "specializedAgentOutput (resetOutputs s) = None"
  "specializedAgentError (resetOutputs s) = None"
  "actionRouterOutput (resetOutputs s) = None"
  "actionRouterError (resetOutputs s) = None"
  by (simp_all add: resetOutputs_def)

lemmas field_simps_app = addLogEntry_fields call_fields show_toast_fields resetOutputs_fields

lemma readDocument_Inr: "readDocument e c s = Inr (d, s') \<Longrightarrow> s' = s"
  by (auto simp add: readDocument_def split: option.splits sum.splits if_splits)

lemma readDocument_Inl:
  assumes "readDocument e c s = Inl h"
  shows "memoryLog h = memoryLog s \<and> calls h = calls s \<and> isLoading h = False
       \<and> classifierOutput h = classifierOutput s \<and> classifierError h = classifierError s
       \<and> specializedAgentOutput h = specializedAgentOutput s
       \<and> actionRouterOutput h = actionRouterOutput s \<and> actionRouterError h = actionRouterError s"
  using assms
  by (auto simp add: readDocument_def field_simps_app split: option.splits sum.splits if_splits)

lemma classifierStep_Inr:
  assumes "classifierStep e c s = Inr ((i, f), s')"
  shows "\<exists>out. classifyDocument e (classifierInputOf c) = Inr out \<and> i = intent out \<and> f = format out
           \<and> classifierOutput s' = Some out
           \<and> memoryLog s' = memoryLog s @
               [\<lparr> timestamp = clock e (length (memoryLog s)), agent = ''Classifier'',
                  log_input = Some (PClassifyInput (classifierInputOf c)),
                  log_output = Some (PText ''Processing...''), action = None \<rparr>,
                \<lparr> timestamp = clock e (Suc (length (memoryLog s))), agent = ''Classifier'',
                  log_input = Some (PClassifyInput (classifierInputOf c)),
                  log_output = Some (PClassifyOutput out), action = None \<rparr>]"
    and "calls s' = calls s @ [ClassifyDocument (classifierInputOf c)]"
    and "isLoading s' = isLoading s"
    and "classifierError s' = classifierError s"
    and "specializedAgentOutput s' = specializedAgentOutput s"
    and "specializedAgentError s' = specializedAgentError s"
    and "actionRouterOutput s' = actionRouterOutput s"
    and "actionRouterError s' = actionRouterError s"
  using assms
  by (auto simp add: classifierStep_def Let_def field_simps_app split: sum.splits)

lemma classifierStep_Inl:
  assumes "classifierStep e c s = Inl h"
  shows "\<exists>err. classifyDocument e (classifierInputOf c) = Inl err
           \<and> classifierError h = Some (or_else err ''Error in Classifier Agent'')"
    and "classifierOutput h = classifierOutput s"
    and "calls h = calls s @ [ClassifyDocument (classifierInputOf c)]"
    and "isLoading h = False"
    and "specializedAgentOutput h = specializedAgentOutput s"
    and "specializedAgentError h = specializedAgentError s"
    and "actionRouterOutput h = actionRouterOutput s"
    and "actionRouterError h = actionRouterError s"
  using assms
  by (auto simp add: classifierStep_def Let_def field_simps_app split: sum.splits)


lemma specializedStep_Inr:
  assumes "specializedStep e c d f s = Inr (ao, s')"
  shows "classifierOutput s' = classifierOutput s"
    and "classifierError s' = classifierError s"
    and "specializedAgentError s' = specializedAgentError s"
    and "actionRouterOutput s' = actionRouterOutput s"
    and "actionRouterError s' = actionRouterError s"
    and "isLoading s' = isLoading s"
    and "f \<noteq> [] \<Longrightarrow> specializedAgentOutput s' = ao"
    and "f = [] \<Longrightarrow> specializedAgentOutput s' = specializedAgentOutput s \<and> ao = None"
    and "ao \<noteq> None \<longleftrightarrow> f \<in> {''Email'', ''JSON'', ''PDF''}"
    and "\<exists>cs. calls s' = calls s @ cs \<and> \<not> list_ex isRouteAction cs
              \<and> (f \<notin> {''Email'', ''JSON'', ''PDF''} \<longrightarrow> cs = [])"
    and "\<exists>ls. memoryLog s' = memoryLog s @ ls \<and> \<not> list_ex carries_error ls"
  using assms
  by (auto simp add: specializedStep_def specializedDone_def specializedFailed_def Let_def
        field_simps_app split: sum.splits if_splits)

lemma specializedStep_Inl:
  assumes "specializedStep e c d f s = Inl h"
  shows "classifierOutput h = classifierOutput s"
    and "classifierError h = classifierError s"
    and "specializedAgentError h \<noteq> None"
    and "actionRouterOutput h = actionRouterOutput s"
    and "actionRouterError h = actionRouterError s"
    and "isLoading h = False"
    and "f \<in> {''Email'', ''PDF''}"
    and "\<exists>cs. calls h = calls s @ cs \<and> \<not> list_ex isRouteAction cs"
  using assms
  by (auto simp add: specializedStep_def specializedDone_def specializedFailed_def Let_def
        field_simps_app split: sum.splits if_splits)

lemma routerStep_frame:
  "classifierOutput (routerStep e ao i f s) = classifierOutput s"
  "classifierError (routerStep e ao i f s) = classifierError s"
  "specializedAgentOutput (routerStep e ao i f s) = specializedAgentOutput s"
  "specializedAgentError (routerStep e ao i f s) = specializedAgentError s"
  "isLoading (routerStep e ao i f s) = isLoading s"
  by (simp_all add: routerStep_def Let_def field_simps_app split: option.splits sum.splits)

lemma routerStep_skipped:
  "ao = None \<or> i = [] \<or> f = [] \<Longrightarrow> routerStep e ao i f s = s"
  by (auto simp add: routerStep_def split: option.splits)

lemma routerStep_succeeded:
  assumes "i \<noteq> []" and "f \<noteq> []"
    and "fst (routeAction e (routerInputOf a i f)) = Inr out"
  shows "actionRouterOutput (routerStep e (Some a) i f s) = Some out"
    and "actionRouterError (routerStep e (Some a) i f s) = actionRouterError s"
    and "calls (routerStep e (Some a) i f s) = calls s @ [RouteAction (routerInputOf a i f)]"
  using assms by (simp_all add: routerStep_def Let_def field_simps_app)

lemma routerStep_failed:
  assumes "i \<noteq> []" and "f \<noteq> []"
    and "fst (routeAction e (routerInputOf a i f)) = Inl err"
  shows "actionRouterOutput (routerStep e (Some a) i f s) = actionRouterOutput s"
    and "actionRouterError (routerStep e (Some a) i f s)
           = Some (or_else err ''Error in Action Router'')"
    and "calls (routerStep e (Some a) i f s) = calls s @ [RouteAction (routerInputOf a i f)]"
    and "memoryLog (routerStep e (Some a) i f s) = memoryLog s @
           [\<lparr> timestamp = clock e (length (memoryLog s)), agent = ''Action Router'',
              log_input = Some (PRouteInput (routerInputOf a i f)),
              log_output = Some (PText ''Processing...''), action = None \<rparr>,
            \<lparr> timestamp = clock e (Suc (length (memoryLog s))), agent = ''Action Router'',
              log_input = None, log_output = Some (PError err), action = None \<rparr>]"
  using assms by (simp_all add: routerStep_def Let_def field_simps_app)

lemma untilRouter_Inr_stages:
  assumes "untilRouter e c = Inr ((ao, i, f), s3)"
  obtains d s2 where
    "classifierStep e c (resetOutputs (c\<lparr> isLoading := True \<rparr>)) = Inr ((i, f), s2)"
    "specializedStep e c d f s2 = Inr (ao, s3)"
  using assms
  by (auto simp add: untilRouter_def split: sum.splits prod.splits dest: readDocument_Inr)

lemma untilRouter_Inl_stages:
  assumes "untilRouter e c = Inl h"
  obtains (read) "readDocument e c (resetOutputs (c\<lparr> isLoading := True \<rparr>)) = Inl h"
  | (classify) "classifierStep e c (resetOutputs (c\<lparr> isLoading := True \<rparr>)) = Inl h"
  | (specialize) d i f s2 where
      "classifierStep e c (resetOutputs (c\<lparr> isLoading := True \<rparr>)) = Inr ((i, f), s2)"
      "specializedStep e c d f s2 = Inl h"
  using assms
  by (auto simp add: untilRouter_def split: sum.splits prod.splits dest: readDocument_Inr)


lemma untilRouter_Inl:
  assumes "untilRouter e c = Inl h"
  shows "actionRouterOutput h = None \<and> actionRouterError h = None \<and> isLoading h = False
       \<and> \<not> list_ex isRouteAction (new_calls c h)
       \<and> (\<forall>out. classifierOutput h = Some out \<longrightarrow> format out \<in> {''Email'', ''PDF''})"
  using assms
proof (cases rule: untilRouter_Inl_stages)
  case read
  from readDocument_Inl [OF read] show ?thesis
    by (simp add: field_simps_app new_calls_def)
next
  case classify
  from classifierStep_Inl [OF classify] show ?thesis
    by (simp add: field_simps_app new_calls_def)
next
  case (specialize d i f s2)
  from classifierStep_Inr [OF specialize(1)] specializedStep_Inl [OF specialize(2)]
  show ?thesis
    by (auto simp add: field_simps_app new_calls_def)
qed

lemma untilRouter_Inr:
  assumes "untilRouter e c = Inr ((ao, i, f), s3)"
  shows "\<exists>out. classifierOutput s3 = Some out \<and> i = intent out \<and> f = format out"
    and "classifierError s3 = None"
    and "specializedAgentError s3 = None"
    and "specializedAgentOutput s3 = ao"
    and "actionRouterOutput s3 = None"
    and "actionRouterError s3 = None"
    and "\<not> list_ex isRouteAction (new_calls c s3)"
    and "ao \<noteq> None \<longleftrightarrow> f \<in> {''Email'', ''JSON'', ''PDF''}"
    and "f \<notin> {''Email'', ''JSON'', ''PDF''} \<Longrightarrow>
           new_calls c s3 = [ClassifyDocument (classifierInputOf c)]"
    and "classifierOutput s3 = Some out \<Longrightarrow>
           map agent (take 2 (appended_entries c s3)) = [''Classifier'', ''Classifier'']
         \<and> map log_output (take 2 (appended_entries c s3))
             = [Some (PText ''Processing...''), Some (PClassifyOutput out)]"
    and "\<not> list_ex carries_error (appended_entries c s3)"
proof -
  from assms obtain d s2 where
    st: "classifierStep e c (resetOutputs (c\<lparr> isLoading := True \<rparr>)) = Inr ((i, f), s2)"
        "specializedStep e c d f s2 = Inr (ao, s3)"
    by (rule untilRouter_Inr_stages)
  note cl = classifierStep_Inr [OF st(1)] and sp = specializedStep_Inr [OF st(2)]
  from cl sp show "\<exists>out. classifierOutput s3 = Some out \<and> i = intent out \<and> f = format out"
    by auto
  from cl sp show "classifierError s3 = None" "specializedAgentError s3 = None"
    "actionRouterOutput s3 = None" "actionRouterError s3 = None"
    by (simp_all add: field_simps_app)
  from cl sp show "specializedAgentOutput s3 = ao"
    by (cases "f = []") (simp_all add: field_simps_app)
  from sp show "ao \<noteq> None \<longleftrightarrow> f \<in> {''Email'', ''JSON'', ''PDF''}"
    by simp
  from cl(2) sp(10) show "\<not> list_ex isRouteAction (new_calls c s3)"
    by (auto simp add: field_simps_app new_calls_def)
  from cl(2) sp(10) show "f \<notin> {''Email'', ''JSON'', ''PDF''} \<Longrightarrow>
           new_calls c s3 = [ClassifyDocument (classifierInputOf c)]"
    by (auto simp add: field_simps_app new_calls_def)
  from cl(1) sp(1,11) show "classifierOutput s3 = Some out \<Longrightarrow>
           map agent (take 2 (appended_entries c s3)) = [''Classifier'', ''Classifier'']
         \<and> map log_output (take 2 (appended_entries c s3))
             = [Some (PText ''Processing...''), Some (PClassifyOutput out)]"
    by (auto simp add: field_simps_app appended_entries_def)
  from cl(1) sp(11) show "\<not> list_ex carries_error (appended_entries c s3)"
    by (auto simp add: field_simps_app appended_entries_def)
qed


section \<open>The pipeline\<close>

text \<open>
  C6. When the declared input type is not PDF and the text is blank, the handler returns
  at the check of the input: it shows the toast of the missing input, calls no flow (no
  stage is entered), appends nothing to the log, which therefore remains empty if it was
  empty, produces no result and is no longer loading.
\<close>

theorem blank_input_halts:
  assumes "inputType c \<noteq> ''PDF''" and "blank (inputValue c)"
  shows "untilRouter e c = Inl (handleProcessRequest e c)
       \<and> new_toasts c (handleProcessRequest e c) =
           [\<lparr> title = ''Missing Input'',
              description = ''Please provide content for '' @ inputType c @ ''.'',
              variant = Destructive \<rparr>]
       \<and> new_calls c (handleProcessRequest e c) = []
       \<and> appended_entries c (handleProcessRequest e c) = []
       \<and> memoryLog (handleProcessRequest e c) = memoryLog c
       \<and> (memoryLog c = [] \<longrightarrow> memoryLog (handleProcessRequest e c) = [])
       \<and> classifierOutput (handleProcessRequest e c) = None
       \<and> specializedAgentOutput (handleProcessRequest e c) = None
       \<and> actionRouterOutput (handleProcessRequest e c) = None
       \<and> isLoading (handleProcessRequest e c) = False"
proof -
  have "untilRouter e c =
          Inl ((show_toast \<lparr> title = ''Missing Input'',
                  description = ''Please provide content for '' @ inputType c @ ''.'',
                  variant = Destructive \<rparr> (resetOutputs (c\<lparr> isLoading := True \<rparr>)))
               \<lparr> isLoading := False \<rparr>)"
    using assms(1) trim_blank [OF assms(2)]
    by (simp add: untilRouter_def readDocument_def)
  then show ?thesis
    by (simp add: handleProcessRequest_def field_simps_app new_toasts_def new_calls_def
          appended_entries_def)
qed

theorem blank_input_halts_witness:
  "inputType blank_state \<noteq> ''PDF'' \<and> blank (inputValue blank_state)
   \<and> memoryLog blank_state = []
   \<and> memoryLog (handleProcessRequest example_env blank_state) = []
   \<and> new_calls blank_state (handleProcessRequest example_env blank_state) = []
   \<and> new_toasts blank_state (handleProcessRequest example_env blank_state) =
       [\<lparr> title = ''Missing Input'', description = ''Please provide content for Email.'',
          variant = Destructive \<rparr>]"
proof -
  have h1: "inputType blank_state \<noteq> ''PDF''"
    by (simp add: blank_state_def example_state_def)
  have h2: "blank (inputValue blank_state)"
    by (simp add: blank_state_def blank_def isWhiteSpace_def)
  have h3: "memoryLog blank_state = []"
    by (simp add: blank_state_def example_state_def)
  have h4: "inputType blank_state = ''Email''"
    by (simp add: blank_state_def example_state_def)
  from blank_input_halts [OF h1 h2, of example_env] h1 h2 h3 h4 show ?thesis
    by simp
qed

text \<open>
  C3. In the state that a run of the handler leaves, there is a routing decision only if
  there are a classification and an extraction result and neither stage recorded an
  error; and if the classifier or the specialized agent recorded an error, or there is no
  extraction result, then the router was not entered: the run made no call to
  \<open>routeAction\<close> and recorded neither a decision nor an error of the router.
\<close>

theorem routing_needs_both_results:
  "(actionRouterOutput (handleProcessRequest e c) \<noteq> None \<longrightarrow>
        classifierOutput (handleProcessRequest e c) \<noteq> None
      \<and> specializedAgentOutput (handleProcessRequest e c) \<noteq> None
      \<and> classifierError (handleProcessRequest e c) = None
      \<and> specializedAgentError (handleProcessRequest e c) = None)
   \<and> (classifierError (handleProcessRequest e c) \<noteq> None
        \<or> specializedAgentError (handleProcessRequest e c) \<noteq> None
        \<or> specializedAgentOutput (handleProcessRequest e c) = None \<longrightarrow>
        \<not> list_ex isRouteAction (new_calls c (handleProcessRequest e c))
      \<and> actionRouterOutput (handleProcessRequest e c) = None
      \<and> actionRouterError (handleProcessRequest e c) = None)"
proof (cases "untilRouter e c")
  case (Inl h)
  from untilRouter_Inl [OF Inl] Inl show ?thesis
    by (simp add: handleProcessRequest_def)
next
  case (Inr r)
  then obtain ao i f s3 where r: "untilRouter e c = Inr ((ao, i, f), s3)"
    by (cases r) auto
  note u = untilRouter_Inr [OF r]
  have s': "handleProcessRequest e c = (routerStep e ao i f s3)\<lparr> isLoading := False \<rparr>"
    using r by (simp add: handleProcessRequest_def)
  show ?thesis
  proof (cases ao)
    case None
    with u s' show ?thesis
      by (simp add: routerStep_skipped routerStep_frame new_calls_def)
  next
    case (Some a)
    with u(1-6) s' show ?thesis
      by (auto simp add: routerStep_frame)
  qed
qed

theorem routing_needs_both_results_witness:
  "actionRouterOutput (handleProcessRequest example_env example_state) \<noteq> None
   \<and> classifierOutput (handleProcessRequest example_env example_state) \<noteq> None
   \<and> specializedAgentOutput (handleProcessRequest example_env example_state) \<noteq> None
   \<and> classifierError (handleProcessRequest example_env example_state) = None
   \<and> specializedAgentError (handleProcessRequest example_env example_state) = None
   \<and> classifierError (handleProcessRequest failing_classifier_env example_state) \<noteq> None
   \<and> \<not> list_ex isRouteAction
         (new_calls example_state (handleProcessRequest failing_classifier_env example_state))
   \<and> actionRouterOutput (handleProcessRequest failing_classifier_env example_state) = None
   \<and> actionRouterError (handleProcessRequest failing_classifier_env example_state) = None"
proof -
  have h1: "actionRouterOutput (handleProcessRequest example_env example_state) \<noteq> None"
    by code_simp
  have h2: "classifierError (handleProcessRequest failing_classifier_env example_state) \<noteq> None"
    by code_simp
  from routing_needs_both_results [of example_env example_state] h1
  have c1: "classifierOutput (handleProcessRequest example_env example_state) \<noteq> None
      \<and> specializedAgentOutput (handleProcessRequest example_env example_state) \<noteq> None
      \<and> classifierError (handleProcessRequest example_env example_state) = None
      \<and> specializedAgentError (handleProcessRequest example_env example_state) = None"
    by blast
  from routing_needs_both_results [of failing_classifier_env example_state] h2
  have c2: "\<not> list_ex isRouteAction
         (new_calls example_state (handleProcessRequest failing_classifier_env example_state))
      \<and> actionRouterOutput (handleProcessRequest failing_classifier_env example_state) = None
      \<and> actionRouterError (handleProcessRequest failing_classifier_env example_state) = None"
    by blast
  show ?thesis
    by (rule conjI [OF h1 conjI [OF conjunct1 [OF c1] conjI [OF conjunct1 [OF conjunct2 [OF c1]]
          conjI [OF conjunct1 [OF conjunct2 [OF conjunct2 [OF c1]]]
          conjI [OF conjunct2 [OF conjunct2 [OF conjunct2 [OF c1]]] conjI [OF h2 c2]]]]]])
qed

text \<open>
  C9. When the run reaches Step 3 in the state \<open>s3\<close> and the router then fails, the
  error is recorded for the router only: the classification and the extraction result
  are those of \<open>s3\<close> and are present, neither of their stages has an error, there is
  no routing decision, the log is the log of \<open>s3\<close> followed by the two entries of the
  router (its placeholder and its error), and the handler runs to its end, where it
  stops loading.
\<close>

theorem router_failure_is_local:
  assumes "untilRouter e c = Inr ((ao, i, f), s3)"
    and "actionRouterError (handleProcessRequest e c) = Some m"
  shows "classifierOutput (handleProcessRequest e c) = classifierOutput s3
       \<and> classifierOutput s3 \<noteq> None
       \<and> specializedAgentOutput (handleProcessRequest e c) = specializedAgentOutput s3
       \<and> specializedAgentOutput s3 \<noteq> None
       \<and> classifierError (handleProcessRequest e c) = None
       \<and> specializedAgentError (handleProcessRequest e c) = None
       \<and> actionRouterOutput (handleProcessRequest e c) = None
       \<and> take (length (memoryLog s3)) (memoryLog (handleProcessRequest e c)) = memoryLog s3
       \<and> map agent (appended_entries s3 (handleProcessRequest e c))
           = [''Action Router'', ''Action Router'']
       \<and> map carries_error (appended_entries s3 (handleProcessRequest e c)) = [False, True]
       \<and> isLoading (handleProcessRequest e c) = False"
proof -
  note u = untilRouter_Inr [OF assms(1)]
  have s': "handleProcessRequest e c = (routerStep e ao i f s3)\<lparr> isLoading := False \<rparr>"
    using assms(1) by (simp add: handleProcessRequest_def)
  have entered: "ao \<noteq> None \<and> i \<noteq> [] \<and> f \<noteq> []"
  proof (rule ccontr)
    assume "\<not> (ao \<noteq> None \<and> i \<noteq> [] \<and> f \<noteq> [])"
    then have "ao = None \<or> i = [] \<or> f = []" by blast
    then have "routerStep e ao i f s3 = s3" by (rule routerStep_skipped)
    with assms(2) u(6) s' show False by simp
  qed
  then obtain a where a: "ao = Some a" by auto
  show ?thesis
  proof (cases "fst (routeAction e (routerInputOf a i f))")
    case (Inr out)
    from routerStep_succeeded [OF _ _ Inr, of s3] entered a u(6) assms(2) s'
    show ?thesis by simp
  next
    case (Inl err)
    from routerStep_failed [OF _ _ Inl, of s3] entered a u(1-5) s'
    show ?thesis
      by (auto simp add: routerStep_frame appended_entries_def)
  qed
qed

theorem router_failure_is_local_witness:
  "untilRouter failing_router_env example_state =
     Inr ((Some (EmailData [(''sender'', JString ''a@b.c'')]), ''Complaint'', ''Email''),
          state_before_routing)
   \<and> actionRouterError (handleProcessRequest failing_router_env example_state)
       = Some ''Quota exceeded''
   \<and> classifierOutput (handleProcessRequest failing_router_env example_state)
       = classifierOutput state_before_routing
   \<and> classifierOutput state_before_routing \<noteq> None
   \<and> specializedAgentOutput (handleProcessRequest failing_router_env example_state)
       = specializedAgentOutput state_before_routing
   \<and> specializedAgentOutput state_before_routing \<noteq> None
   \<and> classifierError (handleProcessRequest failing_router_env example_state) = None
   \<and> specializedAgentError (handleProcessRequest failing_router_env example_state) = None
   \<and> actionRouterOutput (handleProcessRequest failing_router_env example_state) = None
   \<and> take (length (memoryLog state_before_routing))
         (memoryLog (handleProcessRequest failing_router_env example_state))
       = memoryLog state_before_routing
   \<and> map agent (appended_entries state_before_routing
         (handleProcessRequest failing_router_env example_state))
       = [''Action Router'', ''Action Router'']
   \<and> map carries_error (appended_entries state_before_routing
         (handleProcessRequest failing_router_env example_state)) = [False, True]
   \<and> isLoading (handleProcessRequest failing_router_env example_state) = False"
proof -
  have h1: "untilRouter failing_router_env example_state =
     Inr ((Some (EmailData [(''sender'', JString ''a@b.c'')]), ''Complaint'', ''Email''),
          state_before_routing)"
    by code_simp
  have h2: "actionRouterError (handleProcessRequest failing_router_env example_state)
       = Some ''Quota exceeded''"
    by code_simp
  show ?thesis
    by (rule conjI [OF h1 conjI [OF h2 router_failure_is_local [OF h1 h2]]])
qed

text \<open>
  C2, as the code has it. When a run leaves a classification whose format is none of
  \<open>Email\<close>, \<open>JSON\<close> and \<open>PDF\<close>, it leaves no extraction result and no routing decision,
  no stage has an error, the classifier is the only flow the run called, the entries the
  run appended to the log begin with the two entries of the classifier (its placeholder,
  then the classification), and no entry the run appended carries an error.
\<close>

theorem unrecognised_format:
  assumes "classifierOutput (handleProcessRequest e c) = Some out"
    and "format out \<notin> {''Email'', ''JSON'', ''PDF''}"
  shows "specializedAgentOutput (handleProcessRequest e c) = None
       \<and> actionRouterOutput (handleProcessRequest e c) = None
       \<and> classifierError (handleProcessRequest e c) = None
       \<and> specializedAgentError (handleProcessRequest e c) = None
       \<and> actionRouterError (handleProcessRequest e c) = None
       \<and> new_calls c (handleProcessRequest e c) = [ClassifyDocument (classifierInputOf c)]
       \<and> map agent (take 2 (appended_entries c (handleProcessRequest e c)))
           = [''Classifier'', ''Classifier'']
       \<and> map log_output (take 2 (appended_entries c (handleProcessRequest e c)))
           = [Some (PText ''Processing...''), Some (PClassifyOutput out)]
       \<and> \<not> list_ex carries_error (appended_entries c (handleProcessRequest e c))"
proof (cases "untilRouter e c")
  case (Inl h)
  from untilRouter_Inl [OF Inl] Inl assms show ?thesis
    by (auto simp add: handleProcessRequest_def)
next
  case (Inr r)
  then obtain ao i f s3 where r: "untilRouter e c = Inr ((ao, i, f), s3)"
    by (cases r) auto
  note u = untilRouter_Inr [OF r]
  have s': "handleProcessRequest e c = (routerStep e ao i f s3)\<lparr> isLoading := False \<rparr>"
    using r by (simp add: handleProcessRequest_def)
  from assms(1) s' have co: "classifierOutput s3 = Some out"
    by (simp add: routerStep_frame)
  with u(1) assms(2) have f: "f \<notin> {''Email'', ''JSON'', ''PDF''}"
    by auto
  with u(8) have "ao = None" by blast
  then have "handleProcessRequest e c = s3\<lparr> isLoading := False \<rparr>"
    using s' by (simp add: routerStep_skipped)
  with u(2-6) u(9) [OF f] u(10) [OF co] u(11) \<open>ao = None\<close> show ?thesis
    by (simp add: new_calls_def appended_entries_def)
qed

theorem unrecognised_format_witness:
  "classifierOutput (handleProcessRequest unrecognised_env example_state)
     = Some \<lparr> format = ''XML'', intent = ''Invoice'' \<rparr>
   \<and> format \<lparr> format = ''XML'', intent = ''Invoice'' \<rparr> \<notin> {''Email'', ''JSON'', ''PDF''}
   \<and> specializedAgentOutput (handleProcessRequest unrecognised_env example_state) = None
   \<and> actionRouterOutput (handleProcessRequest unrecognised_env example_state) = None
   \<and> classifierError (handleProcessRequest unrecognised_env example_state) = None
   \<and> specializedAgentError (handleProcessRequest unrecognised_env example_state) = None
   \<and> actionRouterError (handleProcessRequest unrecognised_env example_state) = None
   \<and> new_calls example_state (handleProcessRequest unrecognised_env example_state)
       = [ClassifyDocument (classifierInputOf example_state)]
   \<and> map agent (take 2 (appended_entries example_state
         (handleProcessRequest unrecognised_env example_state)))
       = [''Classifier'', ''Classifier'']
   \<and> map log_output (take 2 (appended_entries example_state
         (handleProcessRequest unrecognised_env example_state)))
       = [Some (PText ''Processing...''),
          Some (PClassifyOutput \<lparr> format = ''XML'', intent = ''Invoice'' \<rparr>)]
   \<and> \<not> list_ex carries_error (appended_entries example_state
         (handleProcessRequest unrecognised_env example_state))"
proof -
  have h1: "classifierOutput (handleProcessRequest unrecognised_env example_state)
     = Some \<lparr> format = ''XML'', intent = ''Invoice'' \<rparr>"
    by code_simp
  have h2: "format \<lparr> format = ''XML'', intent = ''Invoice'' \<rparr> \<notin> {''Email'', ''JSON'', ''PDF''}"
    by simp
  show ?thesis
    by (rule conjI [OF h1 conjI [OF h2 unrecognised_format [OF h1 h2]]])
qed

text \<open>
  C2, as the specification states it, fails: in a session whose log is empty, a run
  whose classifier answers with the format \<open>XML\<close> leaves three entries in the log, two
  of the classifier and one under the name of the specialized agent.
\<close>

theorem one_log_entry_counterexample:
  "classifierOutput (handleProcessRequest unrecognised_env example_state)
     = Some \<lparr> format = ''XML'', intent = ''Invoice'' \<rparr>
   \<and> ''XML'' \<notin> {''Email'', ''JSON'', ''PDF''}
   \<and> memoryLog example_state = []
   \<and> length (memoryLog (handleProcessRequest unrecognised_env example_state)) = 3
   \<and> length (memoryLog (handleProcessRequest unrecognised_env example_state)) \<noteq> 1
   \<and> map agent (memoryLog (handleProcessRequest unrecognised_env example_state))
       = [''Classifier'', ''Classifier'', ''Specialized Agent'']"
  by code_simp

end
